theory Spec2Isabelle
  imports Complex_Main "HOL-Library.Multiset" "HOL-Library.Sublist" "HOL-Library.Log_Nat"
begin

section \<open>Text values\<close>

text \<open>
  Python strings are modelled as \<open>string\<close>, read as ASCII text: one \<open>char\<close> per code
  point. \<open>isspace\<close> is \<open>str.isspace\<close> on the code points below 128 (tab, line feed,
  vertical tab, form feed, carriage return, the four separators 28 to 31, and space), and
  \<open>strip\<close> is \<open>str.strip()\<close> without argument: it removes the white space at both ends.
\<close>

definition isspace :: "char \<Rightarrow> bool" where
  "isspace c = (of_char c \<in> {9, 10, 11, 12, 13, 28, 29, 30, 31, 32 :: nat})"

definition strip :: "string \<Rightarrow> string" where
  "strip s = rev (dropWhile isspace (rev (dropWhile isspace s)))"

section \<open>The menu table and its helper functions (admin\_neondb\_helper.py)\<close>

text \<open>
  A row of \<open>menu\<close> as \<open>fetch_menu\<close> returns it: the tuple
  \<open>(id, item_name, category, item_price)\<close>. Prices are Python floats in the source; the
  model takes them as rationals, so that \<open>price < 0\<close> is the order of the rationals.
\<close>

type_synonym menu_row = "int \<times> string \<times> string \<times> rat"

text \<open>
  Modelled from the spec: the declaration of the table \<open>menu\<close> is not part of the
  repository. Its \<open>id\<close> column is "assigned by the store", here by the sequence
  \<open>menu_id_seq\<close>, whose next value an insert takes, and the table has no other constraint.

  The database as the helper sees it: \<open>database_url\<close> is the environment variable
  \<open>DATABASE_URL\<close>; \<open>server_up\<close> says whether psycopg2 connects and carries the
  statement out (when it does not, psycopg2 raises its \<open>Error\<close>); \<open>menu\<close> is the table,
  in insertion order.
\<close>

record store =
  database_url :: "string option"
  server_up :: bool
  menu :: "menu_row list"
  menu_id_seq :: int

text \<open>
  The exceptions of the program: \<open>ValueError\<close> with its message, psycopg2's \<open>Error\<close>,
  and \<open>Exception\<close> for any other exception a library raises (pandas, Prophet), with its
  message.
\<close>

datatype error = ValueError string | PsycopgError | Exception string

text \<open>
  \<open>get_connection\<close>: a missing or empty \<open>DATABASE_URL\<close> raises \<open>ValueError\<close>, a failed
  connection raises psycopg2's error; both are logged and raised again.
\<close>

definition get_connection :: "store \<Rightarrow> error + unit" where
  "get_connection s =
     (case database_url s of
        None \<Rightarrow> Inl (ValueError ''DATABASE_URL not found in environment variables'')
      | Some u \<Rightarrow>
          if u = [] then Inl (ValueError ''DATABASE_URL not found in environment variables'')
          else if server_up s then Inr ()
          else Inl PsycopgError)"

text \<open>\<open>fetch_menu\<close>: \<open>SELECT id, item_name, category, item_price FROM menu ORDER BY id\<close>.\<close>

definition fetch_menu :: "store \<Rightarrow> error + menu_row list" where
  "fetch_menu s =
     (case get_connection s of
        Inl e \<Rightarrow> Inl e
      | Inr _ \<Rightarrow> Inr (sort_key fst (menu s)))"

text \<open>
  \<open>add_menu_item\<close>: the three checks in the source's order, then the insert of the
  stripped name and category with the next id of the sequence, and the commit. The result
  is the exception raised (\<open>Inl\<close>) or the normal return, together with the database
  afterwards.
\<close>

definition add_menu_item :: "string \<Rightarrow> string \<Rightarrow> rat \<Rightarrow> store \<Rightarrow> (error + unit) \<times> store" where
  "add_menu_item item_name category price s =
     (if item_name = [] \<or> strip item_name = [] then
        (Inl (ValueError ''Item name cannot be empty''), s)
      else if category = [] \<or> strip category = [] then
        (Inl (ValueError ''Category cannot be empty''), s)
      else if price < 0 then
        (Inl (ValueError ''Price cannot be negative''), s)
      else
        (case get_connection s of
           Inl e \<Rightarrow> (Inl e, s)
         | Inr _ \<Rightarrow>
             (Inr (),
              s\<lparr>menu := menu s @ [(menu_id_seq s, strip item_name, strip category, price)],
                menu_id_seq := menu_id_seq s + 1\<rparr>)))"

text \<open>
  \<open>update_menu_item\<close>:
  \<open>UPDATE menu SET item_name = %s, category = %s, item_price = %s WHERE id = %s\<close>
  with the arguments as given, and the commit. A statement that matches no row changes
  nothing and raises nothing.
\<close>

definition update_row :: "int \<Rightarrow> string \<Rightarrow> string \<Rightarrow> rat \<Rightarrow> menu_row \<Rightarrow> menu_row" where
  "update_row item_id item_name category price r =
     (if fst r = item_id then (fst r, item_name, category, price) else r)"

definition update_menu_item ::
  "int \<Rightarrow> string \<Rightarrow> string \<Rightarrow> rat \<Rightarrow> store \<Rightarrow> (error + unit) \<times> store" where
  "update_menu_item item_id item_name category price s =
     (case get_connection s of
        Inl e \<Rightarrow> (Inl e, s)
      | Inr _ \<Rightarrow>
          (Inr (), s\<lparr>menu := map (update_row item_id item_name category price) (menu s)\<rparr>))"

text \<open>\<open>delete_menu_item\<close>: \<open>DELETE FROM menu WHERE id = %s\<close> and the commit.\<close>

definition delete_menu_item :: "int \<Rightarrow> store \<Rightarrow> (error + unit) \<times> store" where
  "delete_menu_item item_id s =
     (case get_connection s of
        Inl e \<Rightarrow> (Inl e, s)
      | Inr _ \<Rightarrow> (Inr (), s\<lparr>menu := filter (\<lambda>r. fst r \<noteq> item_id) (menu s)\<rparr>))"

text \<open>The three messages of \<open>add_menu_item\<close>'s input validation.\<close>

definition validation_error :: "error \<Rightarrow> bool" where
  "validation_error e =
     (e = ValueError ''Item name cannot be empty'' \<or>
      e = ValueError ''Category cannot be empty'' \<or>
      e = ValueError ''Price cannot be negative'')"

section \<open>Order rows (app.py)\<close>

text \<open>
  A cell of a column as \<open>fetch_order_data\<close> delivers it: null (\<open>None\<close>, \<open>NaN\<close>), a value
  of the column's type, or text still to be parsed. Time stamps are naive, counted in
  nanoseconds since the epoch; \<open>date_of\<close> is \<open>.dt.date\<close>, the number of the day.
\<close>

datatype time_cell = TNull | TStamp int | TText string

datatype num_cell = NNull | NVal rat | NText string

definition date_of :: "int \<Rightarrow> int" where
  "date_of t = t div 86400000000000"

text \<open>
  A row of the joined order table, with the columns of \<open>fetch_order_data\<close>'s query in its
  order (\<open>otype\<close> is the column \<open>type\<close>, \<open>menu_id\<close> the column \<open>id\<close> of \<open>menu\<close>). The
  type parameters are the types of the time column and of the three numeric columns, which
  the cleaning changes.
\<close>

record ('t, 'n) order_row =
  order_id :: int
  item_id :: int
  item_name :: "string option"
  item_price :: 'n
  quantity :: 'n
  total_price :: 'n
  time_at :: 't
  phone_number :: "string option"
  otype :: "string option"
  category :: "string option"
  menu_id :: int

type_synonym raw_order = "(time_cell, num_cell) order_row"

type_synonym clean_order = "(int option, rat) order_row"

definition recast :: "('t, 'n) order_row \<Rightarrow> 'u \<Rightarrow> 'm \<Rightarrow> 'm \<Rightarrow> 'm \<Rightarrow> ('u, 'm) order_row" where
  "recast r t ip q tp =
     \<lparr>order_id = order_id r, item_id = item_id r, item_name = item_name r,
      item_price = ip, quantity = q, total_price = tp, time_at = t,
      phone_number = phone_number r, otype = otype r, category = category r,
      menu_id = menu_id r\<rparr>"

text \<open>
  \<open>unique\<close> and \<open>drop_duplicates\<close> of pandas keep the first occurrence of every value, in
  the order of the input.
\<close>

fun drop_duplicates :: "'a list \<Rightarrow> 'a list" where
  "drop_duplicates [] = []"
| "drop_duplicates (x # xs) = x # drop_duplicates (filter (\<lambda>y. y \<noteq> x) xs)"

subsection \<open>Data cleaning of the Sales Forecasting page\<close>

text \<open>
  \<open>pd.to_datetime\<close> without \<open>errors\<close>: a time stamp stays, a null becomes \<open>NaT\<close>
  (\<open>None\<close>), a text is parsed. The parser of pandas is the parameter \<open>parse_ts\<close>: it
  raises on a text that is no time stamp (\<open>Inl\<close>), and returns \<open>NaT\<close> on the texts pandas
  reads as null.
\<close>

definition to_datetime :: "(string \<Rightarrow> error + int option) \<Rightarrow> time_cell \<Rightarrow> error + int option" where
  "to_datetime parse_ts c =
     (case c of TNull \<Rightarrow> Inr None | TStamp t \<Rightarrow> Inr (Some t) | TText s \<Rightarrow> parse_ts s)"

text \<open>
  \<open>pd.to_numeric\<close> with \<open>errors="coerce"\<close>: a number stays, a null and a text that is no
  number become \<open>NaN\<close> (\<open>None\<close>). The parser of pandas is the parameter \<open>parse_num\<close>.
\<close>

definition to_numeric :: "(string \<Rightarrow> rat option) \<Rightarrow> num_cell \<Rightarrow> rat option" where
  "to_numeric parse_num c =
     (case c of NNull \<Rightarrow> None | NVal x \<Rightarrow> Some x | NText s \<Rightarrow> parse_num s)"

text \<open>The first \<open>dropna(subset=["time_at", "total_price"])\<close>.\<close>

definition dropna_time_total :: "raw_order list \<Rightarrow> raw_order list" where
  "dropna_time_total rows = filter (\<lambda>r. time_at r \<noteq> TNull \<and> total_price r \<noteq> NNull) rows"

text \<open>
  The column assignment \<open>df_orders["time_at"] = pd.to_datetime(df_orders["time_at"])\<close>:
  the first cell that raises ends the conversion of the whole column.
\<close>

fun convert_times ::
  "(string \<Rightarrow> error + int option) \<Rightarrow> raw_order list \<Rightarrow> error + (int option, num_cell) order_row list" where
  "convert_times parse_ts [] = Inr []"
| "convert_times parse_ts (r # rs) =
     (case to_datetime parse_ts (time_at r) of
        Inl e \<Rightarrow> Inl e
      | Inr t \<Rightarrow>
          (case convert_times parse_ts rs of
             Inl e \<Rightarrow> Inl e
           | Inr rs' \<Rightarrow> Inr (recast r t (item_price r) (quantity r) (total_price r) # rs')))"

text \<open>
  The three \<open>pd.to_numeric(..., errors="coerce")\<close> assignments followed by
  \<open>dropna(subset=["total_price", "item_price", "quantity"])\<close>: a row stays when all three
  cells are numbers.
\<close>

definition coerce_numeric ::
  "(string \<Rightarrow> rat option) \<Rightarrow> (int option, num_cell) order_row \<Rightarrow> clean_order option" where
  "coerce_numeric parse_num r =
     (case to_numeric parse_num (total_price r) of
        None \<Rightarrow> None
      | Some tp \<Rightarrow>
          (case to_numeric parse_num (item_price r) of
             None \<Rightarrow> None
           | Some ip \<Rightarrow>
               (case to_numeric parse_num (quantity r) of
                  None \<Rightarrow> None
                | Some q \<Rightarrow> Some (recast r (time_at r) ip q tp))))"

definition data_cleaning ::
  "(string \<Rightarrow> error + int option) \<Rightarrow> (string \<Rightarrow> rat option) \<Rightarrow> raw_order list
     \<Rightarrow> error + clean_order list" where
  "data_cleaning parse_ts parse_num df_orders =
     (case convert_times parse_ts (dropna_time_total df_orders) of
        Inl e \<Rightarrow> Inl e
      | Inr rows \<Rightarrow> Inr (drop_duplicates (List.map_filter (coerce_numeric parse_num) rows)))"

subsection \<open>Outlier removal\<close>

text \<open>
  \<open>Series.quantile(q)\<close> with the default linear interpolation: on the sorted values, the
  position \<open>(n - 1) * q\<close> is split into its integer part \<open>i\<close> and its fraction, and the
  result lies that fraction of the way from the value at \<open>i\<close> to the next one. On an
  empty column the result is \<open>NaN\<close> (\<open>None\<close>). The source calls it with 0.01 and 0.99.
\<close>

definition quantile :: "rat \<Rightarrow> rat list \<Rightarrow> rat option" where
  "quantile q xs =
     (if xs = [] then None
      else
        let ys = sort xs;
            h = of_nat (length ys - 1) * q;
            i = nat \<lfloor>h\<rfloor>;
            g = h - of_int \<lfloor>h\<rfloor>
        in Some (if i + 1 < length ys then ys ! i + (ys ! (i + 1) - ys ! i) * g else ys ! i))"

text \<open>
  The mask \<open>(total_price >= q_low) & (total_price <= q_high)\<close>; a comparison with \<open>NaN\<close> is
  false.
\<close>

definition remove_outliers :: "clean_order list \<Rightarrow> clean_order list" where
  "remove_outliers rows =
     (let q_low = quantile (1 / 100) (map total_price rows);
          q_high = quantile (99 / 100) (map total_price rows)
      in filter
           (\<lambda>r. (case q_low of None \<Rightarrow> False | Some lo \<Rightarrow> total_price r \<ge> lo) \<and>
                (case q_high of None \<Rightarrow> False | Some hi \<Rightarrow> total_price r \<le> hi))
           rows)"

subsection \<open>Future dates and category names\<close>

text \<open>
  \<open>df_orders[df_orders["time_at"] <= today]\<close>, with \<open>today\<close> the clock's reading; a
  comparison with \<open>NaT\<close> is false.
\<close>

definition remove_future :: "int \<Rightarrow> clean_order list \<Rightarrow> clean_order list" where
  "remove_future today rows =
     filter (\<lambda>r. case time_at r of None \<Rightarrow> False | Some t \<Rightarrow> t \<le> today) rows"

text \<open>
  \<open>str.title()\<close> on ASCII text: a letter that follows a letter is put in lower case, any
  other letter in upper case, and every other character stays.
\<close>

definition islower :: "char \<Rightarrow> bool" where
  "islower c = (97 \<le> (of_char c :: nat) \<and> (of_char c :: nat) \<le> 122)"

definition isupper :: "char \<Rightarrow> bool" where
  "isupper c = (65 \<le> (of_char c :: nat) \<and> (of_char c :: nat) \<le> 90)"

fun title_from :: "bool \<Rightarrow> string \<Rightarrow> string" where
  "title_from previous_is_cased [] = []"
| "title_from previous_is_cased (c # cs) =
     (if islower c then
        (if previous_is_cased then c else char_of (of_char c - 32 :: nat)) # title_from True cs
      else if isupper c then
        (if previous_is_cased then char_of (of_char c + 32 :: nat) else c) # title_from True cs
      else c # title_from False cs)"

definition title :: "string \<Rightarrow> string" where
  "title s = title_from False s"

text \<open>\<open>df_orders["category"].str.strip().str.title()\<close>; a null category stays null.\<close>

definition clean_category :: "clean_order list \<Rightarrow> clean_order list" where
  "clean_category rows = map (\<lambda>r. r\<lparr>category := map_option (title \<circ> strip) (category r)\<rparr>) rows"

text \<open>
  Everything the page does to \<open>df_orders\<close> before the loop over the categories, in the
  source's order. The test \<open>"category" not in df_orders.columns\<close> never holds on a frame
  of \<open>fetch_order_data\<close>, whose query selects \<open>m.category\<close>: a row always has the field.
\<close>

definition prepare_orders ::
  "(string \<Rightarrow> error + int option) \<Rightarrow> (string \<Rightarrow> rat option) \<Rightarrow> int \<Rightarrow> raw_order list
     \<Rightarrow> error + clean_order list" where
  "prepare_orders parse_ts parse_num today df_orders =
     (case data_cleaning parse_ts parse_num df_orders of
        Inl e \<Rightarrow> Inl e
      | Inr rows \<Rightarrow> Inr (clean_category (remove_future today (remove_outliers rows))))"

subsection \<open>The per-category loop of the Sales Forecasting page\<close>

text \<open>\<open>df_orders["category"].unique()\<close>: the categories in the order of their first row.\<close>

definition categories :: "clean_order list \<Rightarrow> string option list" where
  "categories rows = drop_duplicates (map category rows)"

text \<open>
  \<open>df_orders[df_orders["category"] == category]\<close>; the comparison of a null with anything,
  a null included, is false.
\<close>

definition df_category :: "string option \<Rightarrow> clean_order list \<Rightarrow> clean_order list" where
  "df_category c rows = filter (\<lambda>r. c \<noteq> None \<and> category r = c) rows"

text \<open>
  \<open>groupby(time_at.dt.date)["total_price"].sum().reset_index()\<close>. The grouping: every row
  puts its \<open>total_price\<close> at the end of the group of its date, a row whose date is \<open>NaT\<close>
  belongs to no group, and the groups come out in the order of their keys.
  \<open>add_to_group\<close> keeps the groups ordered by date while the rows are read.
\<close>

fun add_to_group :: "int \<Rightarrow> rat \<Rightarrow> (int \<times> rat list) list \<Rightarrow> (int \<times> rat list) list" where
  "add_to_group ds y [] = [(ds, [y])]"
| "add_to_group ds y ((ds', ys) # gs) =
     (if ds < ds' then (ds, [y]) # (ds', ys) # gs
      else if ds = ds' then (ds', ys @ [y]) # gs
      else (ds', ys) # add_to_group ds y gs)"

definition group_row :: "(int \<times> rat list) list \<Rightarrow> clean_order \<Rightarrow> (int \<times> rat list) list" where
  "group_row gs r =
     (case time_at r of None \<Rightarrow> gs | Some t \<Rightarrow> add_to_group (date_of t) (total_price r) gs)"

definition date_groups :: "clean_order list \<Rightarrow> (int \<times> rat list) list" where
  "date_groups rows = foldl group_row [] rows"

text \<open>
  The sum: \<open>total_price\<close> is a float64 column after \<open>pd.to_numeric\<close>, and a rational in
  the model stands for the value of a double. pandas adds the values of a group in float64
  arithmetic, which rounds; how it does so (order, compensation) is not part of the
  repository. The parameter \<open>float_sum\<close> stands for that sum of a group's values, given in
  the order of the rows.
\<close>

definition df_grouped :: "(rat list \<Rightarrow> rat) \<Rightarrow> clean_order list \<Rightarrow> (int \<times> rat) list" where
  "df_grouped float_sum rows = map (\<lambda>(ds, ys). (ds, float_sum ys)) (date_groups rows)"

text \<open>
  What the page shows and logs, one constructor per message: the warning for an empty order
  table, the heading of a category, the note that a category has too little data
  (\<open>st.info\<close> and \<open>logger.info\<close>), the chart of a category with its series and its forecast
  (\<open>st.plotly_chart\<close> and \<open>logger.info\<close>), and the failure message of the page's handler
  (\<open>st.error\<close> and \<open>logger.error\<close> with the exception).
\<close>

datatype 'f event =
    No_order_data
  | Category_header "string option"
  | Not_enough_data "string option"
  | Forecast_chart "string option" "(int \<times> rat) list" 'f
  | Failed_forecast error

text \<open>
  The loop \<open>for category in categories\<close>. Prophet is not part of the repository: the
  parameter \<open>prophet\<close> stands for \<open>Prophet().fit(df_grouped)\<close>,
  \<open>make_future_dataframe(periods=forecast_days)\<close> and \<open>predict\<close> together, returning the
  forecast frame or the exception one of them raises. The loop returns the messages shown
  so far and the exception that ended it, if one did: nothing in the loop catches it.
\<close>

fun forecast_loop ::
  "(rat list \<Rightarrow> rat) \<Rightarrow> ((int \<times> rat) list \<Rightarrow> nat \<Rightarrow> error + 'f) \<Rightarrow> nat \<Rightarrow> clean_order list
     \<Rightarrow> string option list \<Rightarrow> 'f event list \<times> error option" where
  "forecast_loop float_sum prophet forecast_days rows [] = ([], None)"
| "forecast_loop float_sum prophet forecast_days rows (c # cs) =
     (let g = df_grouped float_sum (df_category c rows) in
      if length g < 2 then
        (let (out, exn) = forecast_loop float_sum prophet forecast_days rows cs
         in (Category_header c # Not_enough_data c # out, exn))
      else
        (case prophet g forecast_days of
           Inl e \<Rightarrow> ([Category_header c], Some e)
         | Inr forecast \<Rightarrow>
             (let (out, exn) = forecast_loop float_sum prophet forecast_days rows cs
              in (Category_header c # Forecast_chart c g forecast # out, exn))))"

text \<open>
  The page: the warning when the order table is empty, else the \<open>try\<close> block (cleaning,
  then the loop) with its single \<open>except Exception\<close> handler at the end.
\<close>

definition sales_forecasting ::
  "(rat list \<Rightarrow> rat) \<Rightarrow> ((int \<times> rat) list \<Rightarrow> nat \<Rightarrow> error + 'f)
     \<Rightarrow> (string \<Rightarrow> error + int option) \<Rightarrow> (string \<Rightarrow> rat option) \<Rightarrow> int \<Rightarrow> nat
     \<Rightarrow> raw_order list \<Rightarrow> 'f event list" where
  "sales_forecasting float_sum prophet parse_ts parse_num today forecast_days df_orders =
     (if df_orders = [] then [No_order_data]
      else
        (case prepare_orders parse_ts parse_num today df_orders of
           Inl e \<Rightarrow> [Failed_forecast e]
         | Inr rows \<Rightarrow>
             (case forecast_loop float_sum prophet forecast_days rows (categories rows) of
                (out, None) \<Rightarrow> out
              | (out, Some e) \<Rightarrow> out @ [Failed_forecast e])))"

subsection \<open>The filters of the Dashboard page\<close>

text \<open>
  The options of the two multiselect boxes: the distinct item names and categories of the
  menu rows, in the order of their first row.
\<close>

definition item_options :: "menu_row list \<Rightarrow> string list" where
  "item_options menu_data = drop_duplicates (map (\<lambda>(i, n, c, p). n) menu_data)"

definition category_options :: "menu_row list \<Rightarrow> string list" where
  "category_options menu_data = drop_duplicates (map (\<lambda>(i, n, c, p). c) menu_data)"

text \<open>\<open>Series.isin\<close>: a null cell is in no selection.\<close>

definition isin :: "string option \<Rightarrow> string list \<Rightarrow> bool" where
  "isin x sel = (case x of None \<Rightarrow> False | Some v \<Rightarrow> v \<in> set sel)"

text \<open>
  The item filter and the category filter: each applies only when the selection is not
  empty and shorter than the list of options.
\<close>

definition filter_items :: "string list \<Rightarrow> string list \<Rightarrow> ('t, 'n) order_row list \<Rightarrow> ('t, 'n) order_row list" where
  "filter_items item_filter item_opts df_filtered =
     (if item_filter \<noteq> [] \<and> length item_filter < length item_opts
      then filter (\<lambda>r. isin (item_name r) item_filter) df_filtered
      else df_filtered)"

definition filter_categories ::
  "string list \<Rightarrow> string list \<Rightarrow> ('t, 'n) order_row list \<Rightarrow> ('t, 'n) order_row list" where
  "filter_categories category_filter category_opts df_filtered =
     (if category_filter \<noteq> [] \<and> length category_filter < length category_opts
      then filter (\<lambda>r. isin (category r) category_filter) df_filtered
      else df_filtered)"

text \<open>
  The filter by date (both ends included, on the date of \<open>time_at\<close>; a comparison with
  \<open>NaT\<close> is false) and the search. \<open>str.contains(search_term, case=False, na=False)\<close> is a
  regular-expression search of pandas: the parameter \<open>contains\<close> stands for it on a cell
  that is not null.
\<close>

definition filter_dates :: "int \<Rightarrow> int \<Rightarrow> (int option, 'n) order_row list \<Rightarrow> (int option, 'n) order_row list" where
  "filter_dates from_date to_date df_orders =
     filter (\<lambda>r. case time_at r of
                   None \<Rightarrow> False
                 | Some t \<Rightarrow> date_of t \<ge> from_date \<and> date_of t \<le> to_date) df_orders"

definition filter_search ::
  "(string \<Rightarrow> string \<Rightarrow> bool) \<Rightarrow> string \<Rightarrow> ('t, 'n) order_row list \<Rightarrow> ('t, 'n) order_row list" where
  "filter_search contains search_term df_filtered =
     (if search_term \<noteq> []
      then filter (\<lambda>r. case item_name r of None \<Rightarrow> False | Some n \<Rightarrow> contains search_term n)
             df_filtered
      else df_filtered)"

definition dashboard_filters ::
  "(string \<Rightarrow> string \<Rightarrow> bool) \<Rightarrow> menu_row list \<Rightarrow> int \<Rightarrow> int \<Rightarrow> string list \<Rightarrow> string list
     \<Rightarrow> string \<Rightarrow> (int option, 'n) order_row list \<Rightarrow> (int option, 'n) order_row list" where
  "dashboard_filters contains menu_data from_date to_date item_filter category_filter
       search_term df_orders =
     filter_search contains search_term
       (filter_categories category_filter (category_options menu_data)
          (filter_items item_filter (item_options menu_data)
             (filter_dates from_date to_date df_orders)))"

subsection \<open>Notions for the statements\<close>

text \<open>
  Two notions for stating what the grouping computes: the values a list of groups holds for
  a date (none when the date has no group), and the date of a row (\<open>time_at.dt.date\<close>, none
  for \<open>NaT\<close>).
\<close>

definition group_values :: "(int \<times> rat list) list \<Rightarrow> int \<Rightarrow> rat list" where
  "group_values gs d = (case map_of gs d of None \<Rightarrow> [] | Some ys \<Rightarrow> ys)"

definition row_date :: "clean_order \<Rightarrow> int option" where
  "row_date r = map_option date_of (time_at r)"

subsection \<open>Float64 addition\<close>

text \<open>
  An instance of the float sum, for runs on concrete rows: the values are added from left
  to right, starting from 0, and every addition is rounded to the nearest double, ties to
  the even mantissa (IEEE 754 binary64, 53 bits). \<open>binary_exponent x\<close> is the \<open>e\<close> with
  \<open>2 ^ e \<le> |x| < 2 ^ (e + 1)\<close>. Overflow and subnormal numbers are outside this model. On
  one or two values every way of adding them in float64 gives this result.
\<close>

definition binary_exponent :: "rat \<Rightarrow> int" where
  "binary_exponent x =
     (if 1 \<le> \<bar>x\<bar> then bitlen \<lfloor>\<bar>x\<bar>\<rfloor> - 1 else - bitlen (\<lceil>1 / \<bar>x\<bar>\<rceil> - 1))"

definition round_half_even :: "rat \<Rightarrow> int" where
  "round_half_even q =
     (let f = \<lfloor>q\<rfloor>; r = q - of_int f
      in if r < 1 / 2 then f else if 1 / 2 < r then f + 1 else if even f then f else f + 1)"

definition float64_round :: "rat \<Rightarrow> rat" where
  "float64_round x =
     (if x = 0 then 0
      else let ulp = 2 powi (binary_exponent x - 52)
           in of_int (round_half_even (x / ulp)) * ulp)"

definition float64_add :: "rat \<Rightarrow> rat \<Rightarrow> rat" where
  "float64_add x y = float64_round (x + y)"

definition float64_sum :: "rat list \<Rightarrow> rat" where
  "float64_sum ys = foldl float64_add 0 ys"

section \<open>Sample data\<close>

text \<open>A reachable database whose menu holds one row; the next id of the sequence is 2.\<close>

definition store0 :: store where
  "store0 = \<lparr>database_url = Some ''postgres://neon'', server_up = True,
     menu = [(1, ''Shawarma'', ''Wraps'', 20)], menu_id_seq = 2\<rparr>"

text \<open>A menu of two rows, and two cleaned orders, one of each menu row.\<close>

definition menu0 :: "menu_row list" where
  "menu0 = [(1, ''Shawarma'', ''Wraps'', 20), (2, ''Fries'', ''Sides'', 10)]"

definition order0 :: "int \<Rightarrow> string \<Rightarrow> string \<Rightarrow> int \<Rightarrow> rat \<Rightarrow> clean_order" where
  "order0 oid name cat day tp =
     \<lparr>order_id = oid, item_id = 1, item_name = Some name, item_price = tp, quantity = 1,
      total_price = tp, time_at = Some (day * 86400000000000), phone_number = None,
      otype = None, category = Some cat, menu_id = 1\<rparr>"

definition orders0 :: "clean_order list" where
  "orders0 = [order0 1 ''Shawarma'' ''Wraps'' 0 20, order0 2 ''Fries'' ''Sides'' 1 10]"

text \<open>
  Seven raw orders of four categories, written with different case and spacing; every cell
  is typed, so the two parsers are never called and are set to reject every text.
  \<open>prepared0\<close> is what the page makes of them before its loop. \<open>prophet0\<close> stands for a
  model whose fit raises on the series of the second category and returns a frame (here its
  number of rows) on every other series; \<open>prophet1\<close> raises in addition on every series of
  fewer than two points.
\<close>

definition raw0 :: "int \<Rightarrow> string \<Rightarrow> time_cell \<Rightarrow> num_cell \<Rightarrow> raw_order" where
  "raw0 oid cat t tp =
     \<lparr>order_id = oid, item_id = 1, item_name = Some ''Shawarma'', item_price = NVal 5,
      quantity = NVal 1, total_price = tp, time_at = t, phone_number = None,
      otype = None, category = Some cat, menu_id = 1\<rparr>"

definition day :: "int \<Rightarrow> int" where
  "day n = n * 86400000000000"

definition raw_orders0 :: "raw_order list" where
  "raw_orders0 =
     [raw0 1 ''wraps'' (TStamp (day 0)) (NVal 20), raw0 2 '' Wraps'' (TStamp (day 1)) (NVal 20),
      raw0 3 ''sides'' (TStamp (day 0)) (NVal 10), raw0 4 ''sides'' (TStamp (day 1)) (NVal 10),
      raw0 5 ''drinks'' (TStamp (day 0)) (NVal 5), raw0 6 ''drinks'' (TStamp (day 1)) (NVal 5),
      raw0 7 ''extras'' (TStamp (day 0)) (NVal 10)]"

definition parse_ts0 :: "string \<Rightarrow> error + int option" where
  "parse_ts0 s = Inl (Exception ''Unknown datetime string format'')"

definition parse_num0 :: "string \<Rightarrow> rat option" where
  "parse_num0 s = None"

definition prophet0 :: "(int \<times> rat) list \<Rightarrow> nat \<Rightarrow> error + nat" where
  "prophet0 g days =
     (if g = [(0, 10), (1, 10)] then Inl (Exception ''fit failed'') else Inr (length g + days))"

definition prophet1 :: "(int \<times> rat) list \<Rightarrow> nat \<Rightarrow> error + nat" where
  "prophet1 g days =
     (if length g < 2 then Inl (Exception ''Dataframe has less than 2 non-NaN rows'')
      else prophet0 g days)"

definition clean0 :: "int \<Rightarrow> string \<Rightarrow> int \<Rightarrow> rat \<Rightarrow> clean_order" where
  "clean0 oid cat t tp =
     \<lparr>order_id = oid, item_id = 1, item_name = Some ''Shawarma'', item_price = 5,
      quantity = 1, total_price = tp, time_at = Some t, phone_number = None,
      otype = None, category = Some cat, menu_id = 1\<rparr>"

definition prepared0 :: "clean_order list" where
  "prepared0 =
     [clean0 1 ''Wraps'' (day 0) 20, clean0 2 ''Wraps'' (day 1) 20,
      clean0 3 ''Sides'' (day 0) 10, clean0 4 ''Sides'' (day 1) 10,
      clean0 5 ''Drinks'' (day 0) 5, clean0 6 ''Drinks'' (day 1) 5,
      clean0 7 ''Extras'' (day 0) 10]"

text \<open>Three cleaned orders of one category, two of them on the same day.\<close>

definition rows3 :: "clean_order list" where
  "rows3 = [clean0 1 ''Wraps'' (day 0) 10, clean0 2 ''Wraps'' (day 0) 15,
            clean0 3 ''Wraps'' (day 1) 20]"


section \<open>Properties of the menu helpers\<close>

lemma get_connection_not_validation:
  "get_connection s = Inl e \<Longrightarrow> \<not> validation_error e"
  by (auto simp: get_connection_def validation_error_def split: option.splits if_splits)


lemma strip_Nil: "strip [] = []"
  by (simp add: strip_def)

lemma add_menu_item_fails_iff:
  "(\<exists>e. fst (add_menu_item n c p s) = Inl e \<and> validation_error e)
     \<longleftrightarrow> (strip n = [] \<or> strip c = [] \<or> p < 0)"
  by (auto simp: add_menu_item_def validation_error_def strip_Nil
           dest: get_connection_not_validation split: sum.splits)

lemma add_menu_item_failure_unchanged:
  "fst (add_menu_item n c p s) = Inl e \<Longrightarrow> snd (add_menu_item n c p s) = s"
  by (auto simp: add_menu_item_def split: sum.splits if_splits)

lemma add_menu_item_valid:
  assumes "strip n \<noteq> []" "strip c \<noteq> []" "0 \<le> p" "get_connection s = Inr ()"
  shows "add_menu_item n c p s =
     (Inr (), s\<lparr>menu := menu s @ [(menu_id_seq s, strip n, strip c, p)],
                menu_id_seq := menu_id_seq s + 1\<rparr>)"
  using assms by (auto simp: add_menu_item_def strip_Nil)

lemma get_connection_menu_update [simp]:
  "get_connection (s\<lparr>menu := m\<rparr>) = get_connection s"
  "get_connection (s\<lparr>menu_id_seq := k\<rparr>) = get_connection s"
  by (simp_all add: get_connection_def)

text \<open>
  C5. \<open>add_menu_item\<close> fails with one of its three validation errors exactly when the
  name or the category is empty after stripping or the price is negative; whenever it
  fails, the database is as before; and for a valid input on a reachable database it
  returns normally, appends exactly one row, with the next id, the stripped name, the
  stripped category and the price, and \<open>fetch_menu\<close> afterwards returns the rows it
  returned before together with this one row.
\<close>

theorem add_menu_item_contract:
  "((\<exists>e. fst (add_menu_item n c p s) = Inl e \<and> validation_error e)
      \<longleftrightarrow> (strip n = [] \<or> strip c = [] \<or> p < 0)) \<and>
   (\<forall>e. fst (add_menu_item n c p s) = Inl e \<longrightarrow> snd (add_menu_item n c p s) = s) \<and>
   (strip n \<noteq> [] \<and> strip c \<noteq> [] \<and> 0 \<le> p \<and> get_connection s = Inr () \<longrightarrow>
      fst (add_menu_item n c p s) = Inr () \<and>
      menu (snd (add_menu_item n c p s)) = menu s @ [(menu_id_seq s, strip n, strip c, p)] \<and>
      (\<exists>before after.
         fetch_menu s = Inr before \<and>
         fetch_menu (snd (add_menu_item n c p s)) = Inr after \<and>
         mset after = add_mset (menu_id_seq s, strip n, strip c, p) (mset before)))"
proof (intro conjI allI impI)
  show "(\<exists>e. fst (add_menu_item n c p s) = Inl e \<and> validation_error e)
      \<longleftrightarrow> (strip n = [] \<or> strip c = [] \<or> p < 0)"
    by (rule add_menu_item_fails_iff)
next
  fix e assume "fst (add_menu_item n c p s) = Inl e"
  then show "snd (add_menu_item n c p s) = s"
    by (rule add_menu_item_failure_unchanged)
next
  assume a: "strip n \<noteq> [] \<and> strip c \<noteq> [] \<and> 0 \<le> p \<and> get_connection s = Inr ()"
  then have eq: "add_menu_item n c p s =
     (Inr (), s\<lparr>menu := menu s @ [(menu_id_seq s, strip n, strip c, p)],
                menu_id_seq := menu_id_seq s + 1\<rparr>)"
    by (simp add: add_menu_item_valid)
  show "fst (add_menu_item n c p s) = Inr ()" by (simp add: eq)
  show "menu (snd (add_menu_item n c p s)) = menu s @ [(menu_id_seq s, strip n, strip c, p)]"
    by (simp add: eq)
  show "\<exists>before after.
         fetch_menu s = Inr before \<and>
         fetch_menu (snd (add_menu_item n c p s)) = Inr after \<and>
         mset after = add_mset (menu_id_seq s, strip n, strip c, p) (mset before)"
    using a by (simp add: eq fetch_menu_def)
qed

theorem add_menu_item_contract_witness:
  "strip '' Fries '' \<noteq> [] \<and> strip ''Sides'' \<noteq> [] \<and> (0::rat) \<le> 10 \<and>
   get_connection store0 = Inr () \<and>
   fst (add_menu_item '' Fries '' ''Sides'' 10 store0) = Inr () \<and>
   fetch_menu (snd (add_menu_item '' Fries '' ''Sides'' 10 store0)) =
     Inr [(1, ''Shawarma'', ''Wraps'', 20), (2, ''Fries'', ''Sides'', 10)] \<and>
   fst (add_menu_item ''   '' ''Sides'' 10 store0) = Inl (ValueError ''Item name cannot be empty'') \<and>
   validation_error (ValueError ''Item name cannot be empty'') \<and>
   snd (add_menu_item ''   '' ''Sides'' 10 store0) = store0"
  using add_menu_item_contract [of "'' Fries ''" "''Sides''" 10 store0]
    add_menu_item_contract [of "''   ''" "''Sides''" 10 store0]
  by (simp add: strip_def isspace_def store0_def get_connection_def add_menu_item_def
        fetch_menu_def validation_error_def)

lemma update_menu_item_connected:
  "get_connection s = Inr () \<Longrightarrow>
   update_menu_item i n c p s =
     (Inr (), s\<lparr>menu := map (update_row i n c p) (menu s)\<rparr>)"
  by (simp add: update_menu_item_def)

lemma update_menu_item_error:
  "fst (update_menu_item i n c p s) = Inl e \<Longrightarrow> get_connection s = Inl e"
  by (auto simp: update_menu_item_def split: sum.splits)

lemma map_update_row_absent:
  "i \<notin> fst ` set rows \<Longrightarrow> map (update_row i n c p) rows = rows"
  by (induction rows) (auto simp: update_row_def)

text \<open>
  C8, as the code has it. On a reachable database \<open>update_menu_item\<close> returns normally
  for every id. For an id that no row of the menu carries it is a silent no-op: the
  database is as before and no error is raised. For an id that exists, every row with that
  id gets the given name, category and price, every other row stays, and no row is added
  or removed.
\<close>

theorem update_menu_item_missing_id_silent:
  "get_connection s = Inr () \<longrightarrow>
     fst (update_menu_item i n c p s) = Inr () \<and>
     (i \<notin> fst ` set (menu s) \<longrightarrow> snd (update_menu_item i n c p s) = s) \<and>
     length (menu (snd (update_menu_item i n c p s))) = length (menu s) \<and>
     (\<forall>k < length (menu s).
        menu (snd (update_menu_item i n c p s)) ! k =
          (if fst (menu s ! k) = i then (i, n, c, p) else menu s ! k))"
proof (intro impI conjI allI)
  assume conn: "get_connection s = Inr ()"
  note eq = update_menu_item_connected [OF conn, of i n c p]
  show "fst (update_menu_item i n c p s) = Inr ()"
    by (simp add: eq)
  show "length (menu (snd (update_menu_item i n c p s))) = length (menu s)"
    by (simp add: eq)
  show "snd (update_menu_item i n c p s) = s" if "i \<notin> fst ` set (menu s)"
    using that by (simp add: eq map_update_row_absent)
  show "menu (snd (update_menu_item i n c p s)) ! k =
          (if fst (menu s ! k) = i then (i, n, c, p) else menu s ! k)"
    if "k < length (menu s)" for k
    using that by (simp add: eq update_row_def)
qed

theorem update_menu_item_missing_id_silent_witness:
  "get_connection store0 = Inr () \<and> 999 \<notin> fst ` set (menu store0) \<and>
   fst (update_menu_item 999 ''Falafel'' ''Wraps'' 15 store0) = Inr () \<and>
   snd (update_menu_item 999 ''Falafel'' ''Wraps'' 15 store0) = store0 \<and>
   (0::nat) < length (menu store0) \<and> fst (menu store0 ! 0) = 1 \<and>
   menu (snd (update_menu_item 1 ''Falafel'' ''Plates'' 15 store0)) ! 0
     = (1, ''Falafel'', ''Plates'', 15)"
  using update_menu_item_missing_id_silent [of store0 999 "''Falafel''" "''Wraps''" 15]
    update_menu_item_missing_id_silent [of store0 1 "''Falafel''" "''Plates''" 15]
  by (simp add: store0_def get_connection_def)

text \<open>
  C8 as stated fails: the id 999 is not in the menu of \<open>store0\<close>, and
  \<open>update_menu_item\<close> on it raises no error at all.
\<close>

theorem update_menu_item_not_found_counterexample:
  "999 \<notin> fst ` set (menu store0) \<and>
   \<not> (\<exists>e. fst (update_menu_item 999 ''Falafel'' ''Wraps'' 15 store0) = Inl e)"
  by (simp add: store0_def update_menu_item_def get_connection_def)

text \<open>
  C10. \<open>update_menu_item\<close> validates and strips nothing. The only errors it raises are
  those of \<open>get_connection\<close>, none of which is a validation error, and then the database
  is as before. On a reachable database it returns normally for every input, and every
  row with the given id carries afterwards exactly the name, category and price that were
  passed, whatever they are.
\<close>

theorem update_menu_item_no_validation:
  "(\<forall>e. fst (update_menu_item i n c p s) = Inl e \<longrightarrow>
        \<not> validation_error e \<and> get_connection s = Inl e \<and>
        snd (update_menu_item i n c p s) = s) \<and>
   (get_connection s = Inr () \<longrightarrow>
      fst (update_menu_item i n c p s) = Inr () \<and>
      (\<forall>k < length (menu s). fst (menu s ! k) = i \<longrightarrow>
         menu (snd (update_menu_item i n c p s)) ! k = (i, n, c, p)))"
proof (intro conjI allI impI)
  fix e assume e: "fst (update_menu_item i n c p s) = Inl e"
  then show conn: "get_connection s = Inl e"
    by (rule update_menu_item_error)
  then show "\<not> validation_error e"
    by (rule get_connection_not_validation)
  from conn show "snd (update_menu_item i n c p s) = s"
    by (simp add: update_menu_item_def)
next
  assume conn: "get_connection s = Inr ()"
  then show "fst (update_menu_item i n c p s) = Inr ()"
    by (simp add: update_menu_item_connected)
  fix k assume "k < length (menu s)" "fst (menu s ! k) = i"
  with conn show "menu (snd (update_menu_item i n c p s)) ! k = (i, n, c, p)"
    by (simp add: update_menu_item_connected update_row_def)
qed

text \<open>
  The witness: a name of two spaces, an empty category and the price -5 are written to row
  1 as they are, where \<open>add_menu_item\<close> rejects the same input; with the server down the
  error is psycopg2's.
\<close>

theorem update_menu_item_no_validation_witness:
  "get_connection store0 = Inr () \<and> (0::nat) < length (menu store0) \<and>
   fst (menu store0 ! 0) = 1 \<and> strip ''  '' = [] \<and> (-5 :: rat) < 0 \<and>
   fst (update_menu_item 1 ''  '' [] (-5) store0) = Inr () \<and>
   menu (snd (update_menu_item 1 ''  '' [] (-5) store0)) ! 0 = (1, ''  '', [], -5) \<and>
   fst (add_menu_item ''  '' [] (-5) store0) = Inl (ValueError ''Item name cannot be empty'') \<and>
   get_connection (store0\<lparr>server_up := False\<rparr>) = Inl PsycopgError \<and>
   fst (update_menu_item 1 ''  '' [] (-5) (store0\<lparr>server_up := False\<rparr>)) = Inl PsycopgError \<and>
   \<not> validation_error PsycopgError"
  using update_menu_item_no_validation [of 1 "''  ''" "[]" "-5" store0]
    update_menu_item_no_validation [of 1 "''  ''" "[]" "-5" "store0\<lparr>server_up := False\<rparr>"]
  by (simp add: store0_def get_connection_def strip_def isspace_def add_menu_item_def
        update_menu_item_def)

section \<open>Properties of the Dashboard filters\<close>

lemma set_drop_duplicates [simp]: "set (drop_duplicates xs) = set xs"
  by (induction xs rule: drop_duplicates.induct) auto

lemma distinct_drop_duplicates [simp]: "distinct (drop_duplicates xs)"
  by (induction xs rule: drop_duplicates.induct) auto

lemma distinct_same_set_length:
  "distinct xs \<Longrightarrow> distinct ys \<Longrightarrow> set xs = set ys \<Longrightarrow> length xs = length ys"
  by (metis distinct_card)

lemma distinct_psubset_length:
  assumes "distinct xs" "set xs \<subset> set ys"
  shows "length xs < length ys"
proof -
  have "card (set xs) < card (set ys)"
    using assms(2) by (simp add: psubset_card_mono)
  also have "\<dots> \<le> length ys" by (rule card_length)
  finally show ?thesis using assms(1) by (simp add: distinct_card)
qed

lemma filter_categories_full:
  "distinct sel \<Longrightarrow> distinct opts \<Longrightarrow> set sel = set opts \<Longrightarrow> filter_categories sel opts rows = rows"
  using distinct_same_set_length [of sel opts] by (simp add: filter_categories_def)

lemma filter_items_full:
  "distinct sel \<Longrightarrow> distinct opts \<Longrightarrow> set sel = set opts \<Longrightarrow> filter_items sel opts rows = rows"
  using distinct_same_set_length [of sel opts] by (simp add: filter_items_def)

lemma filter_categories_narrow:
  "distinct sel \<Longrightarrow> sel \<noteq> [] \<Longrightarrow> set sel \<subset> set opts \<Longrightarrow>
   filter_categories sel opts rows = filter (\<lambda>r. isin (category r) sel) rows"
  using distinct_psubset_length [of sel opts] by (simp add: filter_categories_def)

lemma filter_items_narrow:
  "distinct sel \<Longrightarrow> sel \<noteq> [] \<Longrightarrow> set sel \<subset> set opts \<Longrightarrow>
   filter_items sel opts rows = filter (\<lambda>r. isin (item_name r) sel) rows"
  using distinct_psubset_length [of sel opts] by (simp add: filter_items_def)

text \<open>
  C4, as the code has it. Let the selection be a list without repetition, as a multiselect
  box returns it. If it holds exactly the options (the distinct categories, resp. item
  names, of the menu), the category (resp. item) filter returns the rows unchanged. If it
  is not empty and holds only some of the options, the filtered rows are a subsequence of
  the unfiltered ones and every surviving row's category (resp. item name) is in the
  selection. If it is empty, the filter returns the rows unchanged.
\<close>

theorem narrowing_filters:
  "distinct sel \<longrightarrow>
     (set sel = set (category_options menu_data) \<longrightarrow>
        filter_categories sel (category_options menu_data) rows = rows) \<and>
     (set sel = set (item_options menu_data) \<longrightarrow>
        filter_items sel (item_options menu_data) rows = rows) \<and>
     (sel \<noteq> [] \<and> set sel \<subset> set (category_options menu_data) \<longrightarrow>
        subseq (filter_categories sel (category_options menu_data) rows) rows \<and>
        (\<forall>r \<in> set (filter_categories sel (category_options menu_data) rows).
           \<exists>v \<in> set sel. category r = Some v)) \<and>
     (sel \<noteq> [] \<and> set sel \<subset> set (item_options menu_data) \<longrightarrow>
        subseq (filter_items sel (item_options menu_data) rows) rows \<and>
        (\<forall>r \<in> set (filter_items sel (item_options menu_data) rows).
           \<exists>v \<in> set sel. item_name r = Some v)) \<and>
     filter_categories [] (category_options menu_data) rows = rows \<and>
     filter_items [] (item_options menu_data) rows = rows"
proof (intro impI conjI ballI)
  assume d: "distinct sel"
  show "filter_categories sel (category_options menu_data) rows = rows"
    if "set sel = set (category_options menu_data)"
    using d that by (intro filter_categories_full) (simp_all add: category_options_def)
  show "filter_items sel (item_options menu_data) rows = rows"
    if "set sel = set (item_options menu_data)"
    using d that by (intro filter_items_full) (simp_all add: item_options_def)
  show "filter_categories [] (category_options menu_data) rows = rows"
    by (simp add: filter_categories_def)
  show "filter_items [] (item_options menu_data) rows = rows"
    by (simp add: filter_items_def)
next
  assume d: "distinct sel" and n: "sel \<noteq> [] \<and> set sel \<subset> set (category_options menu_data)"
  then have eq: "filter_categories sel (category_options menu_data) rows
      = filter (\<lambda>r. isin (category r) sel) rows"
    by (simp add: filter_categories_narrow)
  show "subseq (filter_categories sel (category_options menu_data) rows) rows"
    by (simp add: eq)
  fix r assume "r \<in> set (filter_categories sel (category_options menu_data) rows)"
  then show "\<exists>v \<in> set sel. category r = Some v"
    by (auto simp: eq isin_def split: option.splits)
next
  assume d: "distinct sel" and n: "sel \<noteq> [] \<and> set sel \<subset> set (item_options menu_data)"
  then have eq: "filter_items sel (item_options menu_data) rows
      = filter (\<lambda>r. isin (item_name r) sel) rows"
    by (simp add: filter_items_narrow)
  show "subseq (filter_items sel (item_options menu_data) rows) rows"
    by (simp add: eq)
  fix r assume "r \<in> set (filter_items sel (item_options menu_data) rows)"
  then show "\<exists>v \<in> set sel. item_name r = Some v"
    by (auto simp: eq isin_def split: option.splits)
qed

lemma opts0: "category_options menu0 = [''Wraps'', ''Sides'']" "item_options menu0 = [''Shawarma'', ''Fries'']"
  by (simp_all add: category_options_def item_options_def menu0_def)

theorem narrowing_filters_witness:
  "distinct [''Sides'', ''Wraps''] \<and>
   set [''Sides'', ''Wraps''] = set (category_options menu0) \<and>
   filter_categories [''Sides'', ''Wraps''] (category_options menu0) orders0 = orders0 \<and>
   distinct [''Sides''] \<and> [''Sides''] \<noteq> [] \<and> set [''Sides''] \<subset> set (category_options menu0) \<and>
   filter_categories [''Sides''] (category_options menu0) orders0
     = [order0 2 ''Fries'' ''Sides'' 1 10] \<and>
   distinct [''Fries''] \<and> set [''Fries''] \<subset> set (item_options menu0) \<and>
   filter_items [''Fries''] (item_options menu0) orders0 = [order0 2 ''Fries'' ''Sides'' 1 10]"
  using narrowing_filters [of "[''Sides'', ''Wraps'']" menu0 orders0]
    narrowing_filters [of "[''Sides'']" menu0 orders0]
    narrowing_filters [of "[''Fries'']" menu0 orders0]
  by (auto simp: opts0 filter_categories_def filter_items_def orders0_def order0_def isin_def)

text \<open>
  C4 as stated fails at the empty selection: it is a strict subset of the options, the
  guard \<open>if category_filter and ...\<close> skips the filter, and the surviving rows carry
  categories that are not in the selection.
\<close>

theorem empty_selection_counterexample:
  "distinct ([] :: string list) \<and> set [] \<subset> set (category_options menu0) \<and>
   \<not> (\<forall>r \<in> set (filter_categories [] (category_options menu0) orders0).
         \<exists>v \<in> set []. category r = Some v)"
  by (auto simp: opts0 filter_categories_def orders0_def)

section \<open>Properties of the Sales Forecasting page\<close>

lemma forecast_loop_short:
  "length (df_grouped float_sum (df_category c rows)) < 2 \<Longrightarrow>
   forecast_loop float_sum prophet days rows (c # cs) =
     (Category_header c # Not_enough_data c # fst (forecast_loop float_sum prophet days rows cs),
      snd (forecast_loop float_sum prophet days rows cs))"
  by (simp add: split_beta)

lemma forecast_loop_raise:
  "\<not> length (df_grouped float_sum (df_category c rows)) < 2 \<Longrightarrow>
   prophet (df_grouped float_sum (df_category c rows)) days = Inl e \<Longrightarrow>
   forecast_loop float_sum prophet days rows (c # cs) = ([Category_header c], Some e)"
  by simp

lemma forecast_loop_chart:
  "\<not> length (df_grouped float_sum (df_category c rows)) < 2 \<Longrightarrow>
   prophet (df_grouped float_sum (df_category c rows)) days = Inr f \<Longrightarrow>
   forecast_loop float_sum prophet days rows (c # cs) =
     (Category_header c # Forecast_chart c (df_grouped float_sum (df_category c rows)) f
        # fst (forecast_loop float_sum prophet days rows cs),
      snd (forecast_loop float_sum prophet days rows cs))"
  by (simp add: split_beta)

lemma forecast_loop_cong:
  "(\<And>g. 2 \<le> length g \<Longrightarrow> prophet g days = prophet' g days) \<Longrightarrow>
   forecast_loop float_sum prophet days rows cs = forecast_loop float_sum prophet' days rows cs"
proof (induction cs)
  case Nil
  show ?case by simp
next
  case (Cons c cs)
  show ?case
  proof (cases "length (df_grouped float_sum (df_category c rows)) < 2")
    case True
    then show ?thesis using Cons by (simp add: forecast_loop_short)
  next
    case False
    then have "prophet (df_grouped float_sum (df_category c rows)) days
        = prophet' (df_grouped float_sum (df_category c rows)) days"
      using Cons.prems by simp
    then show ?thesis using Cons False
      by (cases "prophet' (df_grouped float_sum (df_category c rows)) days")
         (simp_all add: forecast_loop_raise forecast_loop_chart del: forecast_loop.simps)
  qed
qed

lemma forecast_loop_completed:
  "snd (forecast_loop float_sum prophet days rows cs) = None \<Longrightarrow> c \<in> set cs \<Longrightarrow>
   length (df_grouped float_sum (df_category c rows)) < 2 \<Longrightarrow>
   Not_enough_data c \<in> set (fst (forecast_loop float_sum prophet days rows cs))"
proof (induction cs)
  case Nil
  then show ?case by simp
next
  case (Cons d cs)
  show ?case
  proof (cases "length (df_grouped float_sum (df_category d rows)) < 2")
    case True
    then show ?thesis using Cons by (auto simp add: forecast_loop_short simp del: forecast_loop.simps)
  next
    case False
    then show ?thesis using Cons
      by (cases "prophet (df_grouped float_sum (df_category d rows)) days")
         (auto simp add: forecast_loop_raise forecast_loop_chart simp del: forecast_loop.simps)
  qed
qed

lemma forecast_loop_charts:
  "Forecast_chart c g f \<in> set (fst (forecast_loop float_sum prophet days rows cs)) \<Longrightarrow>
   2 \<le> length g \<and> g = df_grouped float_sum (df_category c rows) \<and> prophet g days = Inr f"
proof (induction cs)
  case Nil
  then show ?case by simp
next
  case (Cons d cs)
  show ?case
  proof (cases "length (df_grouped float_sum (df_category d rows)) < 2")
    case True
    then show ?thesis using Cons by (auto simp add: forecast_loop_short simp del: forecast_loop.simps)
  next
    case False
    then show ?thesis using Cons
      by (cases "prophet (df_grouped float_sum (df_category d rows)) days")
         (auto simp add: forecast_loop_raise forecast_loop_chart simp del: forecast_loop.simps)
  qed
qed

lemma forecast_loop_append:
  "forecast_loop float_sum prophet days rows (pre @ cs) =
     (if snd (forecast_loop float_sum prophet days rows pre) = None
      then (fst (forecast_loop float_sum prophet days rows pre) @ fst (forecast_loop float_sum prophet days rows cs),
            snd (forecast_loop float_sum prophet days rows cs))
      else forecast_loop float_sum prophet days rows pre)"
proof (induction pre)
  case Nil
  show ?case by simp
next
  case (Cons d pre)
  show ?case
  proof (cases "length (df_grouped float_sum (df_category d rows)) < 2")
    case True
    then show ?thesis using Cons
      by (simp add: forecast_loop_short del: forecast_loop.simps)
  next
    case False
    then show ?thesis using Cons
      by (cases "prophet (df_grouped float_sum (df_category d rows)) days")
         (simp_all add: forecast_loop_raise forecast_loop_chart del: forecast_loop.simps)
  qed
qed

lemma keys_add_to_group:
  "fst ` set (add_to_group d y gs) = insert d (fst ` set gs)"
  by (induction d y gs rule: add_to_group.induct) auto

lemma sorted_add_to_group:
  "sorted_wrt (<) (map fst gs) \<Longrightarrow> sorted_wrt (<) (map fst (add_to_group d y gs))"
proof (induction d y gs rule: add_to_group.induct)
  case (1 ds y)
  show ?case by simp
next
  case (2 ds y ds' ys gs)
  have keys: "fst ` set (add_to_group ds y gs) = insert ds (fst ` set gs)"
    by (rule keys_add_to_group)
  show ?case
  proof (cases "ds < ds'")
    case True
    then show ?thesis using "2.prems" by auto
  next
    case False
    show ?thesis
    proof (cases "ds = ds'")
      case True
      then show ?thesis using "2.prems" by simp
    next
      case ne: False
      with False have lt: "ds' < ds" by simp
      have "sorted_wrt (<) (map fst (add_to_group ds y gs))"
        using "2.IH" False ne "2.prems" by simp
      moreover have "\<forall>k \<in> fst ` set (add_to_group ds y gs). ds' < k"
        using "2.prems" lt by (auto simp: keys)
      ultimately show ?thesis using False ne by auto
    qed
  qed
qed

lemma values_add_to_group:
  "sorted_wrt (<) (map fst gs) \<Longrightarrow>
   group_values (add_to_group d y gs) k = group_values gs k @ (if k = d then [y] else [])"
proof (induction d y gs rule: add_to_group.induct)
  case (1 ds y)
  show ?case by (simp add: group_values_def)
next
  case (2 ds y ds' ys gs)
  have notin: "map_of gs k = None" if "k \<le> ds'" for k
  proof -
    have "k \<notin> fst ` set gs" using "2.prems" that by auto
    then show ?thesis by (simp add: map_of_eq_None_iff)
  qed
  show ?case
  proof (cases "ds < ds'")
    case True
    then show ?thesis using notin [of ds] by (auto simp: group_values_def)
  next
    case False
    show ?thesis
    proof (cases "ds = ds'")
      case True
      then show ?thesis by (auto simp: group_values_def)
    next
      case ne: False
      have "group_values (add_to_group ds y gs) k
          = group_values gs k @ (if k = ds then [y] else [])"
        using "2.IH" False ne "2.prems" by simp
      then show ?thesis using False ne by (auto simp: group_values_def)
    qed
  qed
qed

lemma foldl_group_row:
  "sorted_wrt (<) (map fst gs) \<Longrightarrow>
   sorted_wrt (<) (map fst (foldl group_row gs rows)) \<and>
   fst ` set (foldl group_row gs rows) = fst ` set gs \<union> {d. \<exists>r \<in> set rows. row_date r = Some d} \<and>
   (\<forall>k. group_values (foldl group_row gs rows) k =
          group_values gs k @ map total_price (filter (\<lambda>r. row_date r = Some k) rows))"
proof (induction rows arbitrary: gs)
  case Nil
  then show ?case by simp
next
  case (Cons r rows)
  show ?case
  proof (cases "time_at r")
    case None
    then have "group_row gs r = gs" "row_date r = None"
      by (simp_all add: group_row_def row_date_def)
    then show ?thesis using Cons.IH [OF Cons.prems] by simp
  next
    case (Some t)
    then have g: "group_row gs r = add_to_group (date_of t) (total_price r) gs"
      and d: "row_date r = Some (date_of t)"
      by (simp_all add: group_row_def row_date_def)
    have s: "sorted_wrt (<) (map fst (group_row gs r))"
      unfolding g using Cons.prems by (rule sorted_add_to_group)
    note ih = Cons.IH [OF s]
    have "fst ` set (foldl group_row gs (r # rows))
        = fst ` set gs \<union> {d. \<exists>r \<in> set (r # rows). row_date r = Some d}"
      using ih by (auto simp: g d keys_add_to_group)
    moreover have "group_values (foldl group_row gs (r # rows)) k =
          group_values gs k @ map total_price (filter (\<lambda>r. row_date r = Some k) (r # rows))"
      for k
      using ih by (simp add: g d values_add_to_group [OF Cons.prems])
    ultimately show ?thesis using ih by simp
  qed
qed

lemma strict_sorted_distinct:
  "sorted_wrt (<) (xs :: int list) \<Longrightarrow> distinct xs"
  by (induction xs) auto

lemma dates_df_grouped: "map fst (df_grouped float_sum rows) = map fst (date_groups rows)"
  by (simp add: df_grouped_def case_prod_beta)

lemma length_date_groups: "length (df_grouped float_sum rows) = length (date_groups rows)"
  by (simp add: df_grouped_def)

lemma date_groups_sorted: "sorted_wrt (<) (map fst (date_groups rows))"
  using foldl_group_row [of "[]" rows] by (simp add: date_groups_def)

lemma df_grouped_sorted: "sorted_wrt (<) (map fst (df_grouped float_sum rows))"
  by (simp add: dates_df_grouped date_groups_sorted)

lemma df_grouped_keys:
  "fst ` set (df_grouped float_sum rows) = {d. \<exists>r \<in> set rows. row_date r = Some d}"
proof -
  have "fst ` set (df_grouped float_sum rows) = set (map fst (df_grouped float_sum rows))"
    by simp
  also have "\<dots> = fst ` set (date_groups rows)"
    by (simp only: dates_df_grouped set_map)
  also have "\<dots> = {d. \<exists>r \<in> set rows. row_date r = Some d}"
    using foldl_group_row [of "[]" rows] by (simp add: date_groups_def)
  finally show ?thesis .
qed


lemma length_df_grouped:
  "length (df_grouped float_sum rows) = card {d. \<exists>r \<in> set rows. row_date r = Some d}"
proof -
  have "distinct (map fst (df_grouped float_sum rows))"
    using df_grouped_sorted by (rule strict_sorted_distinct)
  then have "card (set (map fst (df_grouped float_sum rows)))
      = length (map fst (df_grouped float_sum rows))"
    by (rule distinct_card)
  then show ?thesis by (simp add: df_grouped_keys)
qed

lemma float64_sum_samples:
  "float64_sum [20] = 20" "float64_sum [10] = 10" "float64_sum [5] = 5"
  "float64_sum [10, 15] = 25"
  "float64_sum [3602879701896397 / 36028797018963968, 3602879701896397 / 18014398509481984]
     = 1351079888211149 / 4503599627370496"
  by code_simp+

lemma cleaning0:
  "data_cleaning parse_ts0 parse_num0 raw_orders0 =
     Inr [clean0 1 ''wraps'' (day 0) 20, clean0 2 '' Wraps'' (day 1) 20,
      clean0 3 ''sides'' (day 0) 10, clean0 4 ''sides'' (day 1) 10,
      clean0 5 ''drinks'' (day 0) 5, clean0 6 ''drinks'' (day 1) 5,
      clean0 7 ''extras'' (day 0) 10]"
  by (simp add: data_cleaning_def raw_orders0_def raw0_def dropna_time_total_def to_datetime_def
        recast_def List.map_filter_simps coerce_numeric_def to_numeric_def clean0_def)

lemma floor0: "\<lfloor>3 / 50 :: rat\<rfloor> = 0" "\<lfloor>297 / 50 :: rat\<rfloor> = 5"
  by (simp_all add: floor_eq_iff)

lemma quantiles0:
  "quantile (1 / 100) [20, 20, 10, 10, 5, 5, 10] = Some 5"
  "quantile (99 / 100) [20, 20, 10, 10, 5, 5, 10] = Some 20"
  by (simp_all add: quantile_def Let_def floor0)

lemma upper0:
  "char_of (87 :: nat) = CHR ''W''" "char_of (83 :: nat) = CHR ''S''"
  "char_of (68 :: nat) = CHR ''D''" "char_of (69 :: nat) = CHR ''E''"
  by (simp_all add: char_of_def bit_0)

lemma prepare0: "prepare_orders parse_ts0 parse_num0 (day 10) raw_orders0 = Inr prepared0"
  by (simp add: prepare_orders_def cleaning0 remove_outliers_def clean0_def quantiles0
        remove_future_def day_def clean_category_def title_def strip_def isspace_def
        islower_def isupper_def prepared0_def upper0)

lemma categories0:
  "categories prepared0 = [Some ''Wraps'', Some ''Sides'', Some ''Drinks'', Some ''Extras'']"
  by (simp add: categories_def prepared0_def clean0_def)

lemma series0:
  "df_grouped float64_sum (df_category (Some ''Wraps'') prepared0) = [(0, 20), (1, 20)]"
  "df_grouped float64_sum (df_category (Some ''Sides'') prepared0) = [(0, 10), (1, 10)]"
  "df_grouped float64_sum (df_category (Some ''Drinks'') prepared0) = [(0, 5), (1, 5)]"
  "df_grouped float64_sum (df_category (Some ''Extras'') prepared0) = [(0, 10)]"
  by (simp_all add: df_grouped_def date_groups_def df_category_def prepared0_def clean0_def
        group_row_def date_of_def day_def float64_sum_samples)

lemma page0:
  "sales_forecasting float64_sum prophet0 parse_ts0 parse_num0 (day 10) 7 raw_orders0 =
     [Category_header (Some ''Wraps''), Forecast_chart (Some ''Wraps'') [(0, 20), (1, 20)] 9,
      Category_header (Some ''Sides''), Failed_forecast (Exception ''fit failed'')]"
proof -
  have "raw_orders0 \<noteq> []" by (simp add: raw_orders0_def)
  then show ?thesis
    by (simp add: sales_forecasting_def prepare0 categories0 series0 prophet0_def)
qed

lemma raw_orders0_nonempty: "raw_orders0 \<noteq> []"
  by (simp add: raw_orders0_def)

lemma loop_wraps0:
  "forecast_loop float64_sum prophet0 7 prepared0 [Some ''Wraps''] =
     ([Category_header (Some ''Wraps''), Forecast_chart (Some ''Wraps'') [(0, 20), (1, 20)] 9], None)"
  by (simp add: series0 prophet0_def)

text \<open>
  C1, as the code has it. The loop over the categories stands inside the page's single
  \<open>try\<close> block. When the order table is not empty, the cleaning succeeds, the categories
  before \<open>c\<close> are processed without exception, and the model raises \<open>e\<close> on the series of
  \<open>c\<close>, the page shows what it showed for the earlier categories, the heading of \<open>c\<close>, and
  then the one failure message of its handler (logged with \<open>e\<close>); it shows nothing for the
  categories after \<open>c\<close>. The page itself ends normally.
\<close>

theorem forecast_failure_ends_page:
  "df_orders \<noteq> [] \<and>
   prepare_orders parse_ts parse_num today df_orders = Inr rows \<and>
   categories rows = pre @ c # post \<and>
   snd (forecast_loop float_sum prophet days rows pre) = None \<and>
   \<not> length (df_grouped float_sum (df_category c rows)) < 2 \<and>
   prophet (df_grouped float_sum (df_category c rows)) days = Inl e \<longrightarrow>
     sales_forecasting float_sum prophet parse_ts parse_num today days df_orders =
       fst (forecast_loop float_sum prophet days rows pre) @ [Category_header c, Failed_forecast e]"
proof (intro impI, elim conjE)
  assume ne: "df_orders \<noteq> []"
    and prep: "prepare_orders parse_ts parse_num today df_orders = Inr rows"
    and cats: "categories rows = pre @ c # post"
    and pre: "snd (forecast_loop float_sum prophet days rows pre) = None"
    and long: "\<not> length (df_grouped float_sum (df_category c rows)) < 2"
    and raised: "prophet (df_grouped float_sum (df_category c rows)) days = Inl e"
  have "forecast_loop float_sum prophet days rows (c # post) = ([Category_header c], Some e)"
    using long raised by (rule forecast_loop_raise)
  then have "forecast_loop float_sum prophet days rows (categories rows) =
      (fst (forecast_loop float_sum prophet days rows pre) @ [Category_header c], Some e)"
    unfolding cats forecast_loop_append using pre by simp
  then show "sales_forecasting float_sum prophet parse_ts parse_num today days df_orders =
       fst (forecast_loop float_sum prophet days rows pre) @ [Category_header c, Failed_forecast e]"
    using ne prep by (simp add: sales_forecasting_def)
qed

text \<open>
  The witness: on the sample orders the model raises on the second category, Sides; the
  page ends with the failure message and never reaches Drinks and Extras.
\<close>

theorem forecast_failure_ends_page_witness:
  "raw_orders0 \<noteq> [] \<and>
   prepare_orders parse_ts0 parse_num0 (day 10) raw_orders0 = Inr prepared0 \<and>
   categories prepared0 = [Some ''Wraps''] @ Some ''Sides'' # [Some ''Drinks'', Some ''Extras''] \<and>
   snd (forecast_loop float64_sum prophet0 7 prepared0 [Some ''Wraps'']) = None \<and>
   \<not> length (df_grouped float64_sum (df_category (Some ''Sides'') prepared0)) < 2 \<and>
   prophet0 (df_grouped float64_sum (df_category (Some ''Sides'') prepared0)) 7 = Inl (Exception ''fit failed'') \<and>
   sales_forecasting float64_sum prophet0 parse_ts0 parse_num0 (day 10) 7 raw_orders0 =
     [Category_header (Some ''Wraps''), Forecast_chart (Some ''Wraps'') [(0, 20), (1, 20)] 9,
      Category_header (Some ''Sides''), Failed_forecast (Exception ''fit failed'')]"
proof -
  have h: "raw_orders0 \<noteq> [] \<and>
   prepare_orders parse_ts0 parse_num0 (day 10) raw_orders0 = Inr prepared0 \<and>
   categories prepared0 = [Some ''Wraps''] @ Some ''Sides'' # [Some ''Drinks'', Some ''Extras''] \<and>
   snd (forecast_loop float64_sum prophet0 7 prepared0 [Some ''Wraps'']) = None \<and>
   \<not> length (df_grouped float64_sum (df_category (Some ''Sides'') prepared0)) < 2 \<and>
   prophet0 (df_grouped float64_sum (df_category (Some ''Sides'') prepared0)) 7 = Inl (Exception ''fit failed'')"
    using raw_orders0_nonempty
    by (simp add: prepare0 categories0 loop_wraps0 series0 prophet0_def del: forecast_loop.simps)
  from forecast_failure_ends_page [rule_format, OF h] h show ?thesis
    by (simp add: loop_wraps0 del: forecast_loop.simps)
qed

text \<open>
  C1 as stated fails: Drinks is a category of the sample orders, the model returns a
  forecast on its series, and yet, because the fit of Sides raised before, the page shows
  neither the heading of Drinks nor its forecast.
\<close>

theorem sibling_category_not_forecast_counterexample:
  "Some ''Drinks'' \<in> set (categories prepared0) \<and>
   prepare_orders parse_ts0 parse_num0 (day 10) raw_orders0 = Inr prepared0 \<and>
   prophet0 (df_grouped float64_sum (df_category (Some ''Drinks'') prepared0)) 7 = Inr 9 \<and>
   sales_forecasting float64_sum prophet0 parse_ts0 parse_num0 (day 10) 7 raw_orders0 =
     [Category_header (Some ''Wraps''), Forecast_chart (Some ''Wraps'') [(0, 20), (1, 20)] 9,
      Category_header (Some ''Sides''), Failed_forecast (Exception ''fit failed'')] \<and>
   Category_header (Some ''Drinks'')
     \<notin> set (sales_forecasting float64_sum prophet0 parse_ts0 parse_num0 (day 10) 7 raw_orders0)"
  by (simp add: page0 prepare0 categories0 series0 prophet0_def)

text \<open>
  C7, as the code has it. When the loop reaches a category whose rows have fewer than 2
  distinct dates, that is, when no fit of a category before it raised, it shows the heading
  and the insufficient-data note naming that category, does not call the model, and goes on
  with the remaining categories. The model is never called on a series of fewer than 2
  points: the loop's result does not depend on what the model would return on such a
  series, and every chart shown carries a series of at least 2 points with the forecast the
  model returned on it. In a run that no exception ends, every category with fewer than 2
  distinct dates has its note.
\<close>

theorem insufficient_data_skipped:
  "(snd (forecast_loop float_sum prophet days rows pre) = None \<and>
    card {d. \<exists>r \<in> set (df_category c rows). row_date r = Some d} < 2 \<longrightarrow>
      forecast_loop float_sum prophet days rows (pre @ c # post) =
        (fst (forecast_loop float_sum prophet days rows pre)
           @ Category_header c # Not_enough_data c
           # fst (forecast_loop float_sum prophet days rows post),
         snd (forecast_loop float_sum prophet days rows post))) \<and>
   ((\<forall>g. 2 \<le> length g \<longrightarrow> prophet g days = prophet' g days) \<longrightarrow>
      forecast_loop float_sum prophet days rows cs = forecast_loop float_sum prophet' days rows cs) \<and>
   (\<forall>c' g f. Forecast_chart c' g f \<in> set (fst (forecast_loop float_sum prophet days rows cs)) \<longrightarrow>
      2 \<le> length g \<and> prophet g days = Inr f) \<and>
   (snd (forecast_loop float_sum prophet days rows cs) = None \<longrightarrow>
      (\<forall>c' \<in> set cs. card {d. \<exists>r \<in> set (df_category c' rows). row_date r = Some d} < 2 \<longrightarrow>
         Not_enough_data c' \<in> set (fst (forecast_loop float_sum prophet days rows cs))))"
proof (intro conjI impI allI ballI)
  assume a: "snd (forecast_loop float_sum prophet days rows pre) = None \<and>
    card {d. \<exists>r \<in> set (df_category c rows). row_date r = Some d} < 2"
  then have "length (df_grouped float_sum (df_category c rows)) < 2"
    by (simp add: length_df_grouped)
  then have "forecast_loop float_sum prophet days rows (c # post) =
        (Category_header c # Not_enough_data c # fst (forecast_loop float_sum prophet days rows post),
         snd (forecast_loop float_sum prophet days rows post))"
    by (rule forecast_loop_short)
  then show "forecast_loop float_sum prophet days rows (pre @ c # post) =
        (fst (forecast_loop float_sum prophet days rows pre)
           @ Category_header c # Not_enough_data c
           # fst (forecast_loop float_sum prophet days rows post),
         snd (forecast_loop float_sum prophet days rows post))"
    unfolding forecast_loop_append using a by simp
next
  assume "\<forall>g. 2 \<le> length g \<longrightarrow> prophet g days = prophet' g days"
  then show "forecast_loop float_sum prophet days rows cs = forecast_loop float_sum prophet' days rows cs"
    by (intro forecast_loop_cong) simp
next
  fix c' g f
  assume "Forecast_chart c' g f \<in> set (fst (forecast_loop float_sum prophet days rows cs))"
  then have "2 \<le> length g \<and> g = df_grouped float_sum (df_category c' rows) \<and> prophet g days = Inr f"
    by (rule forecast_loop_charts)
  then show "2 \<le> length g" "prophet g days = Inr f"
    by auto
next
  fix c'
  assume "snd (forecast_loop float_sum prophet days rows cs) = None" "c' \<in> set cs"
    "card {d. \<exists>r \<in> set (df_category c' rows). row_date r = Some d} < 2"
  then show "Not_enough_data c' \<in> set (fst (forecast_loop float_sum prophet days rows cs))"
    by (intro forecast_loop_completed) (simp_all add: length_df_grouped)
qed

lemma short_extras0:
  "card {d. \<exists>r \<in> set (df_category (Some ''Extras'') prepared0). row_date r = Some d} < 2"
  using length_df_grouped [of float64_sum "df_category (Some ''Extras'') prepared0"]
  by (simp add: series0)

lemma loop_drinks0:
  "forecast_loop float64_sum prophet0 7 prepared0 [Some ''Drinks''] =
     ([Category_header (Some ''Drinks''), Forecast_chart (Some ''Drinks'') [(0, 5), (1, 5)] 9], None)"
  by (simp add: series0 prophet0_def)

text \<open>
  The witness: after the forecast of Wraps the loop reaches Extras, which has one date; it
  notes it and goes on to forecast Drinks, and a model that raises on every short series
  gives the same run.
\<close>

theorem insufficient_data_skipped_witness:
  "snd (forecast_loop float64_sum prophet0 7 prepared0 [Some ''Wraps'']) = None \<and>
   card {d. \<exists>r \<in> set (df_category (Some ''Extras'') prepared0). row_date r = Some d} < 2 \<and>
   forecast_loop float64_sum prophet0 7 prepared0 ([Some ''Wraps''] @ Some ''Extras'' # [Some ''Drinks'']) =
     ([Category_header (Some ''Wraps''), Forecast_chart (Some ''Wraps'') [(0, 20), (1, 20)] 9,
       Category_header (Some ''Extras''), Not_enough_data (Some ''Extras''),
       Category_header (Some ''Drinks''), Forecast_chart (Some ''Drinks'') [(0, 5), (1, 5)] 9],
      None) \<and>
   prophet1 (df_grouped float64_sum (df_category (Some ''Extras'') prepared0)) 7
     = Inl (Exception ''Dataframe has less than 2 non-NaN rows'') \<and>
   forecast_loop float64_sum prophet1 7 prepared0 [Some ''Wraps'', Some ''Extras'', Some ''Drinks'']
     = forecast_loop float64_sum prophet0 7 prepared0 [Some ''Wraps'', Some ''Extras'', Some ''Drinks'']"
proof -
  note head = insufficient_data_skipped [where float_sum = float64_sum and prophet = prophet0
      and days = 7 and rows = prepared0 and pre = "[Some ''Wraps'']" and c = "Some ''Extras''"
      and post = "[Some ''Drinks'']", THEN conjunct1]
  note cong = insufficient_data_skipped [where float_sum = float64_sum and prophet = prophet1
      and prophet' = prophet0 and days = 7 and rows = prepared0
      and cs = "[Some ''Wraps'', Some ''Extras'', Some ''Drinks'']", THEN conjunct2, THEN conjunct1]
  have pre: "snd (forecast_loop float64_sum prophet0 7 prepared0 [Some ''Wraps'']) = None"
    by (simp only: loop_wraps0 snd_conv)
  have "forecast_loop float64_sum prophet0 7 prepared0
        ([Some ''Wraps''] @ Some ''Extras'' # [Some ''Drinks'']) =
      (fst (forecast_loop float64_sum prophet0 7 prepared0 [Some ''Wraps''])
         @ Category_header (Some ''Extras'') # Not_enough_data (Some ''Extras'')
         # fst (forecast_loop float64_sum prophet0 7 prepared0 [Some ''Drinks'']),
       snd (forecast_loop float64_sum prophet0 7 prepared0 [Some ''Drinks'']))"
    using head pre short_extras0 by blast
  then have step: "forecast_loop float64_sum prophet0 7 prepared0
        ([Some ''Wraps''] @ Some ''Extras'' # [Some ''Drinks'']) =
     ([Category_header (Some ''Wraps''), Forecast_chart (Some ''Wraps'') [(0, 20), (1, 20)] 9,
       Category_header (Some ''Extras''), Not_enough_data (Some ''Extras''),
       Category_header (Some ''Drinks''), Forecast_chart (Some ''Drinks'') [(0, 5), (1, 5)] 9],
      None)"
    by (simp only: loop_wraps0 loop_drinks0 fst_conv snd_conv append.simps)
  have same: "\<forall>g. 2 \<le> length g \<longrightarrow> prophet1 g 7 = prophet0 g 7"
    by (simp add: prophet1_def)
  have eq: "forecast_loop float64_sum prophet1 7 prepared0 [Some ''Wraps'', Some ''Extras'', Some ''Drinks'']
      = forecast_loop float64_sum prophet0 7 prepared0 [Some ''Wraps'', Some ''Extras'', Some ''Drinks'']"
    using cong same by (rule mp)
  have raised: "prophet1 (df_grouped float64_sum (df_category (Some ''Extras'') prepared0)) 7
     = Inl (Exception ''Dataframe has less than 2 non-NaN rows'')"
    by (simp add: series0 prophet1_def)
  show ?thesis
    using pre short_extras0 step raised eq by (intro conjI)
qed

text \<open>
  C7 as stated fails: Extras is a category of the sample orders with a single date, and
  yet, because the fit of Sides raised before the loop came to it, the page shows no
  insufficient-data note for Extras.
\<close>

theorem short_category_not_reported_counterexample:
  "prepare_orders parse_ts0 parse_num0 (day 10) raw_orders0 = Inr prepared0 \<and>
   Some ''Extras'' \<in> set (categories prepared0) \<and>
   card {d. \<exists>r \<in> set (df_category (Some ''Extras'') prepared0). row_date r = Some d} < 2 \<and>
   Not_enough_data (Some ''Extras'')
     \<notin> set (sales_forecasting float64_sum prophet0 parse_ts0 parse_num0 (day 10) 7 raw_orders0)"
  using short_extras0 by (simp add: page0 prepare0 categories0)






section \<open>Properties of the cleaning steps\<close>

lemma quantile_nonempty: "xs \<noteq> [] \<Longrightarrow> \<exists>p. quantile q xs = Some p"
  by (simp add: quantile_def Let_def)

lemma remove_outliers_filter:
  "quantile (1 / 100) (map total_price rows) = Some p1 \<Longrightarrow>
   quantile (99 / 100) (map total_price rows) = Some p99 \<Longrightarrow>
   remove_outliers rows = filter (\<lambda>r. p1 \<le> total_price r \<and> total_price r \<le> p99) rows"
  by (simp add: remove_outliers_def)

text \<open>
  C6. Let \<open>p1\<close> and \<open>p99\<close> be the 1st and the 99th percentile of \<open>total_price\<close> over the
  rows before the trim (they exist whenever there is a row). After the trim no remaining
  row has a \<open>total_price\<close> below \<open>p1\<close> or above \<open>p99\<close>, every row with \<open>total_price\<close> in
  \<open>[p1, p99]\<close>, ends included, is kept, and the kept rows stand in their order.
\<close>

theorem outlier_trim_bounds:
  "(rows \<noteq> [] \<longrightarrow>
      (\<exists>lo hi. quantile (1 / 100) (map total_price rows) = Some lo \<and>
               quantile (99 / 100) (map total_price rows) = Some hi)) \<and>
   (quantile (1 / 100) (map total_price rows) = Some p1 \<and>
    quantile (99 / 100) (map total_price rows) = Some p99 \<longrightarrow>
      (\<forall>r \<in> set (remove_outliers rows). \<not> total_price r < p1 \<and> \<not> p99 < total_price r) \<and>
      (\<forall>r \<in> set rows. p1 \<le> total_price r \<and> total_price r \<le> p99 \<longrightarrow>
         r \<in> set (remove_outliers rows)) \<and>
      subseq (remove_outliers rows) rows)"
proof (intro conjI impI)
  assume "rows \<noteq> []"
  then have "map total_price rows \<noteq> []" by simp
  then show "\<exists>lo hi. quantile (1 / 100) (map total_price rows) = Some lo \<and>
               quantile (99 / 100) (map total_price rows) = Some hi"
    using quantile_nonempty [of "map total_price rows"] by blast
next
  assume q: "quantile (1 / 100) (map total_price rows) = Some p1 \<and>
    quantile (99 / 100) (map total_price rows) = Some p99"
  then have eq: "remove_outliers rows
      = filter (\<lambda>r. p1 \<le> total_price r \<and> total_price r \<le> p99) rows"
    by (simp add: remove_outliers_filter)
  show "\<forall>r \<in> set (remove_outliers rows). \<not> total_price r < p1 \<and> \<not> p99 < total_price r"
    by (auto simp: eq)
  show "\<forall>r \<in> set rows. p1 \<le> total_price r \<and> total_price r \<le> p99 \<longrightarrow>
         r \<in> set (remove_outliers rows)"
    by (simp add: eq)
  show "subseq (remove_outliers rows) rows"
    by (simp add: eq)
qed

lemma floor3: "\<lfloor>1 / 50 :: rat\<rfloor> = 0" "\<lfloor>99 / 50 :: rat\<rfloor> = 1"
  by (simp_all add: floor_eq_iff)

lemma quantiles3:
  "quantile (1 / 100) (map total_price rows3) = Some (101 / 10)"
  "quantile (99 / 100) (map total_price rows3) = Some (199 / 10)"
  by (simp_all add: quantile_def Let_def floor3 rows3_def clean0_def)

text \<open>
  The witness: of the prices 10, 15, 20 the percentiles are 10.1 and 19.9, and only the row
  of 15 remains.
\<close>

theorem outlier_trim_bounds_witness:
  "rows3 \<noteq> [] \<and>
   quantile (1 / 100) (map total_price rows3) = Some (101 / 10) \<and>
   quantile (99 / 100) (map total_price rows3) = Some (199 / 10) \<and>
   remove_outliers rows3 = [clean0 2 ''Wraps'' (day 0) 15] \<and>
   total_price (clean0 1 ''Wraps'' (day 0) 10) < 101 / 10 \<and>
   199 / 10 < total_price (clean0 3 ''Wraps'' (day 1) 20) \<and>
   clean0 2 ''Wraps'' (day 0) 15 \<in> set (remove_outliers rows3)"
  using outlier_trim_bounds [of rows3 "101 / 10" "199 / 10"]
  by (simp add: quantiles3 remove_outliers_def) (simp add: rows3_def clean0_def)

lemma convert_times_fails_iff:
  "(\<exists>e. convert_times parse_ts rs = Inl e)
     \<longleftrightarrow> (\<exists>r \<in> set rs. \<exists>e. to_datetime parse_ts (time_at r) = Inl e)"
  by (induction rs) (auto split: sum.splits)

lemma to_datetime_fails_iff:
  "(\<exists>e. to_datetime parse_ts c = Inl e) \<longleftrightarrow> (\<exists>s e. c = TText s \<and> parse_ts s = Inl e)"
  by (cases c) (auto simp: to_datetime_def)

lemma data_cleaning_fails_iff:
  "(\<exists>e. data_cleaning parse_ts parse_num df_orders = Inl e)
     \<longleftrightarrow> (\<exists>r \<in> set df_orders. total_price r \<noteq> NNull \<and>
            (\<exists>s e. time_at r = TText s \<and> parse_ts s = Inl e))"
proof -
  have "(\<exists>e. data_cleaning parse_ts parse_num df_orders = Inl e)
      \<longleftrightarrow> (\<exists>e. convert_times parse_ts (dropna_time_total df_orders) = Inl e)"
    by (auto simp: data_cleaning_def split: sum.splits)
  also have "\<dots> \<longleftrightarrow> (\<exists>r \<in> set df_orders. total_price r \<noteq> NNull \<and>
            (\<exists>s e. time_at r = TText s \<and> parse_ts s = Inl e))"
    unfolding convert_times_fails_iff to_datetime_fails_iff
    by (auto simp: dropna_time_total_def)
  finally show ?thesis .
qed

lemma convert_times_rows:
  "convert_times parse_ts rs = Inr rs' \<Longrightarrow> r' \<in> set rs' \<Longrightarrow>
   \<exists>r \<in> set rs. total_price r' = total_price r \<and> item_price r' = item_price r \<and>
     quantity r' = quantity r"
  by (induction rs arbitrary: rs') (auto simp: recast_def split: sum.splits)

lemma data_cleaning_numeric:
  assumes "data_cleaning parse_ts parse_num df_orders = Inr rows" and "r' \<in> set rows"
  shows "\<exists>r \<in> set df_orders.
     to_numeric parse_num (total_price r) = Some (total_price r') \<and>
     to_numeric parse_num (item_price r) = Some (item_price r') \<and>
     to_numeric parse_num (quantity r) = Some (quantity r')"
proof -
  from assms(1) obtain rs where conv: "convert_times parse_ts (dropna_time_total df_orders) = Inr rs"
    and rows: "rows = drop_duplicates (List.map_filter (coerce_numeric parse_num) rs)"
    by (auto simp: data_cleaning_def split: sum.splits)
  from assms(2) rows obtain c where c: "c \<in> set rs" "coerce_numeric parse_num c = Some r'"
    by (auto simp: List.map_filter_def)
  from convert_times_rows [OF conv c(1)] obtain r where r: "r \<in> set (dropna_time_total df_orders)"
    "total_price c = total_price r" "item_price c = item_price r" "quantity c = quantity r"
    by blast
  from c(2) have "to_numeric parse_num (total_price c) = Some (total_price r') \<and>
     to_numeric parse_num (item_price c) = Some (item_price r') \<and>
     to_numeric parse_num (quantity c) = Some (quantity r')"
    by (auto simp: coerce_numeric_def recast_def split: option.splits)
  with r show ?thesis by (auto simp: dropna_time_total_def)
qed

text \<open>
  C3 at a failing input. One row whose \<open>time_at\<close> is the text \<open>not a date\<close>, added to the
  sample orders, makes \<open>pd.to_datetime\<close> raise: the page shows its failure message and
  nothing else, instead of dropping the row. A row whose \<open>total_price\<close> is the text
  \<open>n/a\<close> is dropped, as the claim says, and the other rows are prepared as before.
\<close>

theorem unparseable_time_at_fails_page:
  "sales_forecasting float64_sum prophet0 parse_ts0 parse_num0 (day 10) 7
     (raw0 8 ''wraps'' (TText ''not a date'') (NVal 20) # raw_orders0)
     = [Failed_forecast (Exception ''Unknown datetime string format'')] \<and>
   prepare_orders parse_ts0 parse_num0 (day 10)
     (raw0 8 ''wraps'' (TStamp (day 0)) (NText ''n/a'') # raw_orders0) = Inr prepared0"
proof
  show "sales_forecasting float64_sum prophet0 parse_ts0 parse_num0 (day 10) 7
     (raw0 8 ''wraps'' (TText ''not a date'') (NVal 20) # raw_orders0)
     = [Failed_forecast (Exception ''Unknown datetime string format'')]"
    by (simp add: sales_forecasting_def prepare_orders_def data_cleaning_def
          dropna_time_total_def raw0_def to_datetime_def parse_ts0_def)
  have "data_cleaning parse_ts0 parse_num0
      (raw0 8 ''wraps'' (TStamp (day 0)) (NText ''n/a'') # raw_orders0)
      = data_cleaning parse_ts0 parse_num0 raw_orders0"
    by (simp add: data_cleaning_def dropna_time_total_def raw0_def to_datetime_def
          List.map_filter_simps coerce_numeric_def to_numeric_def parse_num0_def recast_def
          split: sum.splits)
  then show "prepare_orders parse_ts0 parse_num0 (day 10)
     (raw0 8 ''wraps'' (TStamp (day 0)) (NText ''n/a'') # raw_orders0) = Inr prepared0"
    using prepare0 by (simp add: prepare_orders_def)
qed

end
